theory Spec2Isabelle
  imports Main
begin

section \<open>JavaScript strings\<close>

text \<open>
  A JavaScript string is a sequence of UTF-16 code units. The model writes it as a HOL
  \<open>string\<close>, one \<open>char\<close> per code unit, which covers the code units below 256. In that
  range the white space of \<open>String.prototype.trim\<close> and of the regular-expression class
  \<open>\s\<close> is TAB, LF, VT, FF, CR, SPACE and NBSP.
\<close>

definition is_space :: "char \<Rightarrow> bool" where
  "is_space c = (c \<in> set [CHR 0x09, CHR 0x0A, CHR 0x0B, CHR 0x0C, CHR 0x0D, CHR 0x20, CHR 0xA0])"

definition is_digit :: "char \<Rightarrow> bool" where
  "is_digit c = (c \<in> set ''0123456789'')"

text \<open>\<open>s.trim()\<close>\<close>

definition js_trim :: "string \<Rightarrow> string" where
  "js_trim s = rev (dropWhile is_space (rev (dropWhile is_space s)))"

text \<open>\<open>s.startsWith(p)\<close>\<close>

fun startsWith :: "string \<Rightarrow> string \<Rightarrow> bool" where
  "startsWith s [] = True"
| "startsWith [] (p # ps) = False"
| "startsWith (c # cs) (p # ps) = (c = p \<and> startsWith cs ps)"

text \<open>
  \<open>s.replace(p, r)\<close> with a string pattern: the first occurrence of \<open>p\<close> is replaced,
  a string without occurrence is returned as it is. The replacement strings of the
  program hold no \<open>$\<close>, so they are inserted literally.
\<close>

fun js_replace :: "string \<Rightarrow> string \<Rightarrow> string \<Rightarrow> string" where
  "js_replace [] p r = (if p = [] then r else [])"
| "js_replace (c # cs) p r =
     (if startsWith (c # cs) p then r @ drop (length p) (c # cs)
      else c # js_replace cs p r)"

text \<open>\<open>s.split('\n')\<close>: never empty, \<open>''''\<close> gives one empty field.\<close>

fun split_nl :: "string \<Rightarrow> string list" where
  "split_nl [] = [[]]"
| "split_nl (c # cs) =
     (if c = CHR 0x0A then [] # split_nl cs
      else (case split_nl cs of [] \<Rightarrow> [[c]] | l # ls \<Rightarrow> (c # l) # ls))"

text \<open>\<open>s[i]\<close>: \<open>undefined\<close> (here \<open>None\<close>) out of range.\<close>

definition char_at :: "string \<Rightarrow> nat \<Rightarrow> char option" where
  "char_at s i = (if i < length s then Some (s ! i) else None)"

text \<open>
  \<open>parseInt(s)\<close> without radix: leading white space is skipped, a sign is read, the prefix
  \<open>0x\<close> or \<open>0X\<close> selects radix 16, and the longest run of digits of the radix is the
  value; no digit at all gives \<open>NaN\<close>, here \<open>None\<close>. The value is the exact integer:
  JavaScript rounds a magnitude above \<open>2 ^ 53\<close> to the nearest double, with the same sign.
\<close>

definition digit_val :: "char \<Rightarrow> nat option" where
  "digit_val c = map_of (zip ''0123456789abcdefABCDEF''
       [0, 1, 2, 3, 4, 5, 6, 7, 8, 9, 10, 11, 12, 13, 14, 15, 10, 11, 12, 13, 14, 15]) c"

definition is_radix_digit :: "nat \<Rightarrow> char \<Rightarrow> bool" where
  "is_radix_digit r c = (case digit_val c of None \<Rightarrow> False | Some d \<Rightarrow> d < r)"

fun radix_value :: "nat \<Rightarrow> nat \<Rightarrow> string \<Rightarrow> nat" where
  "radix_value r acc [] = acc"
| "radix_value r acc (c # cs) =
     radix_value r (acc * r + (case digit_val c of None \<Rightarrow> 0 | Some d \<Rightarrow> d)) cs"

definition parse_digits :: "nat \<Rightarrow> string \<Rightarrow> nat option" where
  "parse_digits r s =
     (let ds = takeWhile (is_radix_digit r) s
      in if ds = [] then None else Some (radix_value r 0 ds))"

definition parse_unsigned :: "string \<Rightarrow> nat option" where
  "parse_unsigned s =
     (if startsWith s ''0x'' \<or> startsWith s ''0X'' then parse_digits 16 (drop 2 s)
      else parse_digits 10 s)"

definition parseInt :: "string \<Rightarrow> int option" where
  "parseInt str =
     (let s = dropWhile is_space str
      in case s of
           [] \<Rightarrow> None
         | c # cs \<Rightarrow>
             if c = CHR ''-'' then map_option (\<lambda>n. - int n) (parse_unsigned cs)
             else if c = CHR ''+'' then map_option int (parse_unsigned cs)
             else map_option int (parse_unsigned s))"

text \<open>\<open>parseInt(out.trim()) || 0\<close>: \<open>NaN\<close> and \<open>0\<close> are falsy.\<close>

definition count_or_zero :: "string \<Rightarrow> int" where
  "count_or_zero out = (case parseInt (js_trim out) of None \<Rightarrow> 0 | Some n \<Rightarrow> if n = 0 then 0 else n)"

section \<open>The environment of the server\<close>

text \<open>
  The file system, the path library and the git tool are outside the program. The handlers
  are functions of their answers: \<open>readFileSync\<close> and \<open>execSync\<close> answer \<open>None\<close> where the
  call throws (missing or unreadable file; tool missing, non-zero exit status, no network).
  \<open>execSync\<close> takes the command line and the working directory and answers the captured
  standard output.
\<close>

record env =
  path_join :: "string \<Rightarrow> string \<Rightarrow> string"
  existsSync :: "string \<Rightarrow> bool"
  readFileSync :: "string \<Rightarrow> string option"
  execSync :: "string \<Rightarrow> string \<Rightarrow> string option"

section \<open>GET /api/git-status\<close>

record git_status =
  branch :: string
  ahead :: int
  behind :: int
  modified :: "string list"
  staged :: "string list"
  untracked :: "string list"
  is_dirty :: bool
  remote_url :: "string option"

datatype response = Json git_status | Status400 string

text \<open>The body sent when the project has no \<open>.git\<close> directory.\<close>

definition no_repo_status :: git_status where
  "no_repo_status = \<lparr>branch = [], ahead = 0, behind = 0, modified = [], staged = [],
     untracked = [], is_dirty = False, remote_url = None\<rparr>"

text \<open>Reading \<open>.git/HEAD\<close>; \<open>None\<close> is the \<open>null\<close> that \<open>branch\<close> keeps when the read throws.\<close>

definition head_branch :: "string \<Rightarrow> string" where
  "head_branch content =
     (let head = js_trim content
      in if startsWith head ''ref: refs/heads/'' then js_replace head ''ref: refs/heads/'' []
         else head)"

definition read_branch :: "env \<Rightarrow> string \<Rightarrow> string option" where
  "read_branch e gitDir = map_option head_branch (readFileSync e (path_join e gitDir ''HEAD''))"

text \<open>Reading the \<open>url\<close> of \<open>[remote "origin"]\<close> in \<open>.git/config\<close>; the loop stops at the first hit.\<close>

definition origin_header :: string where
  "origin_header = ''[remote '' @ [CHR 0x22] @ ''origin'' @ [CHR 0x22] @ '']''"

fun scan_config :: "bool \<Rightarrow> string list \<Rightarrow> string option" where
  "scan_config inOrigin [] = None"
| "scan_config inOrigin (line # rest) =
     (if js_trim line = origin_header then scan_config True rest
      else if inOrigin \<and> startsWith (js_trim line) ''url = ''
        then Some (js_replace (js_trim line) ''url = '' [])
      else scan_config inOrigin rest)"

definition read_remote :: "env \<Rightarrow> string \<Rightarrow> string option" where
  "read_remote e gitDir =
     (case readFileSync e (path_join e gitDir ''config'') of
        None \<Rightarrow> None
      | Some config \<Rightarrow> scan_config False (split_nl config))"

text \<open>
  The three arrays the status loop pushes to, and the body of the loop for one line of
  \<open>statusOutput.trim().split('\n').filter(l => l)\<close>.
\<close>

record file_lists =
  fl_modified :: "string list"
  fl_staged :: "string list"
  fl_untracked :: "string list"

definition no_files :: file_lists where
  "no_files = \<lparr>fl_modified = [], fl_staged = [], fl_untracked = []\<rparr>"

definition push_index :: "string \<Rightarrow> string \<Rightarrow> file_lists \<Rightarrow> file_lists" where
  "push_index indexStatus filePath fl =
     (if char_at indexStatus 0 = Some CHR ''?'' \<or> char_at indexStatus 0 = Some CHR ''A''
        then fl\<lparr>fl_untracked := fl_untracked fl @ [filePath]\<rparr>
      else if char_at indexStatus 0 \<noteq> Some CHR '' ''
        then fl\<lparr>fl_staged := fl_staged fl @ [filePath]\<rparr>
      else fl)"

definition push_worktree :: "string \<Rightarrow> string \<Rightarrow> file_lists \<Rightarrow> file_lists" where
  "push_worktree indexStatus filePath fl =
     (if char_at indexStatus 1 = Some CHR ''M'' \<or> char_at indexStatus 1 = Some CHR ''D''
        then fl\<lparr>fl_modified := fl_modified fl @ [filePath]\<rparr>
      else if char_at indexStatus 0 \<noteq> Some CHR '' '' \<and> char_at indexStatus 0 \<noteq> Some CHR ''?''
        then fl\<lparr>fl_modified := fl_modified fl @ [filePath]\<rparr>
      else fl)"

definition status_line :: "file_lists \<Rightarrow> string \<Rightarrow> file_lists" where
  "status_line fl line =
     (let indexStatus = take 2 line; filePath = js_trim (drop 3 line)
      in push_worktree indexStatus filePath (push_index indexStatus filePath fl))"

definition status_lines :: "string \<Rightarrow> string list" where
  "status_lines statusOutput = filter (\<lambda>l. l \<noteq> []) (split_nl (js_trim statusOutput))"

definition parse_status :: "string \<Rightarrow> file_lists" where
  "parse_status statusOutput = foldl status_line no_files (status_lines statusOutput)"

text \<open>
  The handler runs up to four commands. Each step answers its result together with the
  command lines it handed to \<open>execSync\<close>, in order.
\<close>

definition status_cmd :: string where
  "status_cmd = ''git status --porcelain''"

definition fetch_cmd :: string where
  "fetch_cmd = ''git fetch origin''"

text \<open>A template literal prints \<open>null\<close> as the word \<open>null\<close>.\<close>

definition template :: "string option \<Rightarrow> string" where
  "template b = (case b of None \<Rightarrow> ''null'' | Some s \<Rightarrow> s)"

definition behind_cmd :: "string option \<Rightarrow> string" where
  "behind_cmd b = ''git rev-list --count HEAD..origin/'' @ template b"

definition ahead_cmd :: "string option \<Rightarrow> string" where
  "ahead_cmd b = ''git rev-list --count origin/'' @ template b @ ''..HEAD''"

definition run_status :: "env \<Rightarrow> string \<Rightarrow> file_lists \<times> string list" where
  "run_status e projectPath =
     (case execSync e status_cmd projectPath of
        None \<Rightarrow> (no_files, [status_cmd])
      | Some statusOutput \<Rightarrow> (parse_status statusOutput, [status_cmd]))"

definition rev_count :: "env \<Rightarrow> string \<Rightarrow> string \<Rightarrow> int" where
  "rev_count e projectPath cmd =
     (case execSync e cmd projectPath of None \<Rightarrow> 0 | Some out \<Rightarrow> count_or_zero out)"

text \<open>The result is the pair \<open>(ahead, behind)\<close>.\<close>

definition divergence ::
  "env \<Rightarrow> string \<Rightarrow> string option \<Rightarrow> string option \<Rightarrow> (int \<times> int) \<times> string list" where
  "divergence e projectPath b remoteUrl =
     (if remoteUrl = None \<or> remoteUrl = Some [] then ((0, 0), [])
      else case execSync e fetch_cmd projectPath of
             None \<Rightarrow> ((0, 0), [fetch_cmd])
           | Some _ \<Rightarrow>
               ((rev_count e projectPath (ahead_cmd b), rev_count e projectPath (behind_cmd b)),
                [fetch_cmd, behind_cmd b, ahead_cmd b]))"

text \<open>\<open>branch || 'main'\<close>\<close>

definition branch_or_main :: "string option \<Rightarrow> string" where
  "branch_or_main b = (case b of None \<Rightarrow> ''main'' | Some s \<Rightarrow> if s = [] then ''main'' else s)"

definition repo_status :: "env \<Rightarrow> string \<Rightarrow> string \<Rightarrow> git_status \<times> string list" where
  "repo_status e projectPath gitDir =
     (let b = read_branch e gitDir;
          remoteUrl = read_remote e gitDir;
          (fl, log1) = run_status e projectPath;
          ((a, bh), log2) = divergence e projectPath b remoteUrl
      in (\<lparr>branch = branch_or_main b, ahead = a, behind = bh,
           modified = fl_modified fl, staged = fl_staged fl, untracked = fl_untracked fl,
           is_dirty = (fl_modified fl \<noteq> [] \<or> fl_staged fl \<noteq> [] \<or> fl_untracked fl \<noteq> []),
           remote_url = remoteUrl\<rparr>, log1 @ log2))"

text \<open>
  The handler. The query parameter is \<open>None\<close> when the request has none; the empty string
  is falsy as well.
\<close>

definition git_status_handler :: "env \<Rightarrow> string option \<Rightarrow> response \<times> string list" where
  "git_status_handler e query =
     (case query of
        None \<Rightarrow> (Status400 ''Missing projectPath'', [])
      | Some projectPath \<Rightarrow>
          if projectPath = [] then (Status400 ''Missing projectPath'', [])
          else let gitDir = path_join e projectPath ''.git''
               in if \<not> existsSync e gitDir then (Json no_repo_status, [])
                  else let (s, log) = repo_status e projectPath gitDir in (Json s, log))"

section \<open>POST /api/run-command\<close>

text \<open>
  The handler spawns the command and registers four listeners; what happens next is a
  sequence of events of the child. The state is the two closure variables and the
  responses the listeners have sent, in order; the client receives the first one.
  \<open>exit_code\<close> is \<open>None\<close> for the \<open>null\<close> that \<open>close\<close> reports after a signal.
\<close>

record command_output =
  stdout :: string
  stderr :: string
  exit_code :: "int option"

record http_reply =
  http_status :: nat
  body :: command_output

datatype stream = Stdout | Stderr

datatype child_event = Data stream string | Close "int option" | Error string

record run_state =
  stdout_var :: string
  stderr_var :: string
  sent :: "http_reply list"

definition run_start :: run_state where
  "run_start = \<lparr>stdout_var = [], stderr_var = [], sent = []\<rparr>"

fun run_event :: "run_state \<Rightarrow> child_event \<Rightarrow> run_state" where
  "run_event st (Data Stdout d) = st\<lparr>stdout_var := stdout_var st @ d\<rparr>"
| "run_event st (Data Stderr d) = st\<lparr>stderr_var := stderr_var st @ d\<rparr>"
| "run_event st (Close code) =
     st\<lparr>sent := sent st @ [\<lparr>http_status = 200,
        body = \<lparr>stdout = stdout_var st, stderr = stderr_var st, exit_code = code\<rparr>\<rparr>]\<rparr>"
| "run_event st (Error message) =
     st\<lparr>sent := sent st @ [\<lparr>http_status = 500,
        body = \<lparr>stdout = [], stderr = message, exit_code = Some (- 1)\<rparr>\<rparr>]\<rparr>"

definition run_command :: "child_event list \<Rightarrow> http_reply option" where
  "run_command evs = (case sent (foldl run_event run_start evs) of [] \<Rightarrow> None | r # _ \<Rightarrow> Some r)"

text \<open>The chunks of one stream, concatenated in arrival order.\<close>

fun collected :: "stream \<Rightarrow> (stream \<times> string) list \<Rightarrow> string" where
  "collected s [] = []"
| "collected s ((s', d) # rest) = (if s' = s then d @ collected s rest else collected s rest)"

section \<open>The process supervisor\<close>

subsection \<open>The endpoint pattern\<close>

text \<open>
  \<open>/(https?:\/\/[^\s]+|localhost:[0-9]+|127\.0\.0\.1:[0-9]+)/\<close>: every alternative is a literal
  followed by one or more characters of a class, taken greedily. At one position the
  alternatives are tried in order, \<open>s?\<close> first with the \<open>s\<close>.
\<close>

definition literal_then_class :: "string \<Rightarrow> (char \<Rightarrow> bool) \<Rightarrow> string \<Rightarrow> string option" where
  "literal_then_class lit cls s =
     (if startsWith s lit \<and> takeWhile cls (drop (length lit) s) \<noteq> []
      then Some (lit @ takeWhile cls (drop (length lit) s)) else None)"

fun first_some :: "'a option list \<Rightarrow> 'a option" where
  "first_some [] = None"
| "first_some (None # rest) = first_some rest"
| "first_some (Some x # rest) = Some x"

definition match_here :: "string \<Rightarrow> string option" where
  "match_here s = first_some
     [literal_then_class ''https://'' (\<lambda>c. \<not> is_space c) s,
      literal_then_class ''http://'' (\<lambda>c. \<not> is_space c) s,
      literal_then_class ''localhost:'' is_digit s,
      literal_then_class ''127.0.0.1:'' is_digit s]"

text \<open>\<open>text.match(re)\<close>: the match at the leftmost position that has one; group 1 is all of it.\<close>

fun url_match :: "string \<Rightarrow> string option" where
  "url_match [] = match_here []"
| "url_match (c # cs) =
     (case match_here (c # cs) of Some m \<Rightarrow> Some m | None \<Rightarrow> url_match cs)"

subsection \<open>The table and the handlers\<close>

text \<open>
  A pid is a number; the table's property key and the route parameter are its decimal
  form. A key that is no pid of the table finds nothing with a \<open>url\<close>, so the model looks
  pids up directly.
\<close>

record proc_info =
  info_url :: string
  info_command :: string

text \<open>The closure of one \<open>/api/spawn-command\<close> request.\<close>

record child =
  pid :: nat
  command :: string
  args :: "string list"
  output_var :: string
  url :: "string option"

record server =
  runningProcesses :: "nat \<rightharpoonup> proc_info"
  children :: "child list"

definition server_start :: server where
  "server_start = \<lparr>runningProcesses = Map.empty, children = []\<rparr>"

text \<open>\<open>args.join(' ')\<close>\<close>

fun join_args :: "string list \<Rightarrow> string" where
  "join_args [] = []"
| "join_args [a] = a"
| "join_args (a # b # bs) = a @ '' '' @ join_args (b # bs)"

text \<open>\<open>!url\<close> holds of \<open>null\<close> and of the empty string.\<close>

definition checkForUrl ::
  "string \<Rightarrow> child \<times> (nat \<rightharpoonup> proc_info) \<Rightarrow> child \<times> (nat \<rightharpoonup> proc_info)" where
  "checkForUrl text = (\<lambda>(c, table).
     let c1 = c\<lparr>output_var := output_var c @ text\<rparr>
     in if url c1 = None \<or> url c1 = Some []
        then (case url_match text of
                None \<Rightarrow> (c1, table)
              | Some m \<Rightarrow>
                  let u = (if startsWith m ''http'' then m else ''http://'' @ m)
                  in (c1\<lparr>url := Some u\<rparr>,
                      table(pid c1 \<mapsto> \<lparr>info_url = u,
                         info_command = command c1 @ '' '' @ join_args (args c1)\<rparr>)))
        else (c1, table))"

text \<open>
  What the server sees: a spawn request (the system assigns the pid), a chunk on
  either stream of the child with a given index, and the \<open>close\<close> of a child.
\<close>

datatype event = Spawn string "string list" nat | Output nat string | Closed nat

fun step :: "server \<Rightarrow> event \<Rightarrow> server" where
  "step st (Spawn cmd as p) =
     st\<lparr>children := children st @ [\<lparr>pid = p, command = cmd, args = as, output_var = [], url = None\<rparr>]\<rparr>"
| "step st (Output h text) =
     (if h < length (children st)
      then let (c, table) = checkForUrl text (children st ! h, runningProcesses st)
           in st\<lparr>runningProcesses := table, children := (children st)[h := c]\<rparr>
      else st)"
| "step st (Closed h) =
     (if h < length (children st)
      then st\<lparr>runningProcesses := (runningProcesses st)(pid (children st ! h) := None)\<rparr>
      else st)"

definition run :: "server \<Rightarrow> event list \<Rightarrow> server" where
  "run st evs = foldl step st evs"

text \<open>GET /api/process-url/:pid; \<open>None\<close> is \<open>{url: null}\<close>.\<close>

definition process_url :: "server \<Rightarrow> nat \<Rightarrow> string option" where
  "process_url st p =
     (case runningProcesses st p of
        None \<Rightarrow> None
      | Some info \<Rightarrow> if info_url info = [] then None else Some (info_url info))"

text \<open>
  POST /api/kill-process. \<open>process.kill(pid)\<close> belongs to the system: the parameter answers
  \<open>None\<close> when the signal was sent and the error message when the call throws (no such
  process, no permission).
\<close>

datatype kill_reply = Success | Status500 string

definition kill_process :: "(nat \<Rightarrow> string option) \<Rightarrow> nat \<Rightarrow> kill_reply" where
  "kill_process process_kill p =
     (case process_kill p of None \<Rightarrow> Success | Some message \<Rightarrow> Status500 message)"

section \<open>What the specification calls an endpoint\<close>

text \<open>
  The specification's words, independent of the pattern above: an absolute
  \<open>http://\<close> or \<open>https://\<close> URL, or a bare \<open>localhost:PORT\<close> or \<open>127.0.0.1:PORT\<close>.
\<close>

definition absolute_url :: "string \<Rightarrow> bool" where
  "absolute_url m = (\<exists>rest. rest \<noteq> [] \<and> (\<forall>c\<in>set rest. \<not> is_space c) \<and>
      (m = ''http://'' @ rest \<or> m = ''https://'' @ rest))"

definition bare_host_port :: "string \<Rightarrow> bool" where
  "bare_host_port m = (\<exists>port. port \<noteq> [] \<and> (\<forall>c\<in>set port. is_digit c) \<and>
      (m = ''localhost:'' @ port \<or> m = ''127.0.0.1:'' @ port))"

definition mentions_endpoint :: "string \<Rightarrow> bool" where
  "mentions_endpoint text =
     (\<exists>before m after. text = before @ m @ after \<and> (absolute_url m \<or> bare_host_port m))"

section \<open>Auxiliary definitions\<close>

text \<open>A project \<open>/proj\<close> with a repository, for evaluating the handler.\<close>

definition sample_env :: "string option \<Rightarrow> string option \<Rightarrow> (string \<Rightarrow> string option) \<Rightarrow> env" where
  "sample_env headFile configFile git =
     \<lparr>path_join = (\<lambda>a b. a @ ''/'' @ b),
      existsSync = (\<lambda>f. f = ''/proj/.git''),
      readFileSync = (\<lambda>f. if f = ''/proj/.git/HEAD'' then headFile
                          else if f = ''/proj/.git/config'' then configFile else None),
      execSync = (\<lambda>cmd cwd. if cwd = ''/proj'' then git cmd else None)\<rparr>"

text \<open>Trimming at the end only.\<close>

definition rtrim :: "string \<Rightarrow> string" where
  "rtrim s = rev (dropWhile is_space (rev s))"


text \<open>A line feed, a configuration with an origin, and a git tool with fixed answers.\<close>

definition lf :: string where
  "lf = [CHR 0x0A]"


definition sample_git :: "string \<Rightarrow> string option \<Rightarrow> string option \<Rightarrow> string option \<Rightarrow> string \<Rightarrow> string option" where
  "sample_git statusOut fetched behindOut aheadOut cmd =
     (if cmd = status_cmd then Some statusOut
      else if cmd = fetch_cmd then fetched
      else if cmd = ''git rev-list --count HEAD..origin/main'' then behindOut
      else if cmd = ''git rev-list --count origin/main..HEAD'' then aheadOut
      else None)"


section \<open>Facts about the string functions and the parsers\<close>

lemma startsWith_take: "startsWith s p = (take (length p) s = p)"
  by (induction s p rule: startsWith.induct) auto

lemma js_replace_prefix: "startsWith s p \<Longrightarrow> js_replace s p r = r @ drop (length p) s"
  by (cases s) (auto simp: startsWith_take)

lemma char_at_take2_0: "char_at (take 2 l) 0 = char_at l 0"
  by (cases l) (auto simp: char_at_def)

lemma char_at_take2_1: "char_at (take 2 l) (Suc 0) = char_at l (Suc 0)"
  by (cases l; cases "tl l") (auto simp: char_at_def)

lemma untracked_status_line:
  "fl_untracked (status_line fl l) = fl_untracked fl @
     (if char_at l 0 = Some CHR ''?'' \<or> char_at l 0 = Some CHR ''A'' then [js_trim (drop 3 l)] else [])"
  by (simp add: status_line_def push_index_def push_worktree_def char_at_take2_0 Let_def)

lemma staged_status_line:
  "fl_staged (status_line fl l) = fl_staged fl @
     (if char_at l 0 \<noteq> Some CHR ''?'' \<and> char_at l 0 \<noteq> Some CHR ''A'' \<and> char_at l 0 \<noteq> Some CHR '' ''
      then [js_trim (drop 3 l)] else [])"
  by (simp add: status_line_def push_index_def push_worktree_def char_at_take2_0 Let_def)

lemma modified_status_line:
  "fl_modified (status_line fl l) = fl_modified fl @
     (if char_at l 1 = Some CHR ''M'' \<or> char_at l 1 = Some CHR ''D'' \<or>
         (char_at l 0 \<noteq> Some CHR '' '' \<and> char_at l 0 \<noteq> Some CHR ''?'')
      then [js_trim (drop 3 l)] else [])"
  by (simp add: status_line_def push_index_def push_worktree_def char_at_take2_0 char_at_take2_1 Let_def)

lemma untracked_foldl:
  "fl_untracked (foldl status_line fl ls) = fl_untracked fl @
     map (\<lambda>l. js_trim (drop 3 l))
       (filter (\<lambda>l. char_at l 0 = Some CHR ''?'' \<or> char_at l 0 = Some CHR ''A'') ls)"
  by (induction ls arbitrary: fl) (simp_all add: untracked_status_line)

lemma staged_foldl:
  "fl_staged (foldl status_line fl ls) = fl_staged fl @
     map (\<lambda>l. js_trim (drop 3 l))
       (filter (\<lambda>l. char_at l 0 \<noteq> Some CHR ''?'' \<and> char_at l 0 \<noteq> Some CHR ''A'' \<and> char_at l 0 \<noteq> Some CHR '' '') ls)"
  by (induction ls arbitrary: fl) (simp_all add: staged_status_line)

lemma modified_foldl:
  "fl_modified (foldl status_line fl ls) = fl_modified fl @
     map (\<lambda>l. js_trim (drop 3 l))
       (filter (\<lambda>l. char_at l 1 = Some CHR ''M'' \<or> char_at l 1 = Some CHR ''D'' \<or>
         (char_at l 0 \<noteq> Some CHR '' '' \<and> char_at l 0 \<noteq> Some CHR ''?'')) ls)"
  by (induction ls arbitrary: fl) (simp_all add: modified_status_line)

lemma handler_repo:
  "projectPath \<noteq> [] \<Longrightarrow> existsSync e (path_join e projectPath ''.git'') \<Longrightarrow>
   git_status_handler e (Some projectPath) =
     (Json (fst (repo_status e projectPath (path_join e projectPath ''.git''))),
      snd (repo_status e projectPath (path_join e projectPath ''.git'')))"
  by (simp add: git_status_handler_def Let_def split: prod.splits)






lemma js_trim_keeps_prefix:
  assumes "p \<noteq> []" "\<not> is_space (hd p)" "\<not> is_space (last p)"
  shows "js_trim (p @ r) = p @ rtrim r"
proof -
  have 1: "dropWhile is_space (p @ r) = p @ r" using assms by (cases p) auto
  have 2: "dropWhile is_space (rev p) = rev p" using assms by (cases "rev p") (auto simp: last_rev hd_rev)
  have "dropWhile is_space (rev r @ rev p) = dropWhile is_space (rev r) @ rev p"
  proof (cases "\<forall>x\<in>set (rev r). is_space x")
    case True
    then have "dropWhile is_space (rev r) = []" by simp
    moreover have "dropWhile is_space (rev r @ rev p) = dropWhile is_space (rev p)"
      using True by (intro dropWhile_append2) simp
    ultimately show ?thesis using 2 by simp
  next
    case False
    then show ?thesis by (auto simp: dropWhile_append1)
  qed
  then show ?thesis using 1 by (simp add: js_trim_def rtrim_def)
qed

lemma startsWith_split: "startsWith s lit \<Longrightarrow> s = lit @ drop (length lit) s"
  using append_take_drop_id[of "length lit" s] by (simp add: startsWith_take)

lemma startsWith_js_trim:
  assumes "startsWith content ''ref: refs/heads/''"
  shows "js_trim content = ''ref: refs/heads/'' @ rtrim (drop 16 content)"
proof -
  have "length ''ref: refs/heads/'' = 16" by simp
  then have "content = ''ref: refs/heads/'' @ drop 16 content"
    using startsWith_split[OF assms] by (simp only:)
  moreover have "js_trim (''ref: refs/heads/'' @ drop 16 content) =
      ''ref: refs/heads/'' @ rtrim (drop 16 content)"
    by (rule js_trim_keeps_prefix) (simp_all add: is_space_def)
  ultimately show ?thesis by (simp only:)
qed

lemma head_branch_eq:
  "head_branch content =
     (if startsWith (js_trim content) ''ref: refs/heads/''
      then drop 16 (js_trim content) else js_trim content)"
proof -
  have "length ''ref: refs/heads/'' = 16" by simp
  then have "startsWith h ''ref: refs/heads/'' \<Longrightarrow> js_replace h ''ref: refs/heads/'' [] = drop 16 h" for h
    using js_replace_prefix[of h "''ref: refs/heads/''" "[]"] by (simp only: append_Nil)
  then show ?thesis
    unfolding head_branch_def Let_def
    by (cases "startsWith (js_trim content) ''ref: refs/heads/''") (simp_all only: if_True if_False)
qed

lemma repo_status_fields:
  "fst (repo_status e p g) =
     \<lparr>branch = branch_or_main (read_branch e g),
      ahead = fst (fst (divergence e p (read_branch e g) (read_remote e g))),
      behind = snd (fst (divergence e p (read_branch e g) (read_remote e g))),
      modified = fl_modified (fst (run_status e p)),
      staged = fl_staged (fst (run_status e p)),
      untracked = fl_untracked (fst (run_status e p)),
      is_dirty = (fl_modified (fst (run_status e p)) \<noteq> [] \<or> fl_staged (fst (run_status e p)) \<noteq> []
                  \<or> fl_untracked (fst (run_status e p)) \<noteq> []),
      remote_url = read_remote e g\<rparr>"
  by (simp add: repo_status_def Let_def split: prod.splits)


lemma branch_or_main_nonempty: "branch_or_main b \<noteq> []"
  by (simp add: branch_or_main_def split: option.splits)

section \<open>The snapshot of a directory\<close>

text \<open>
  C5. For a project path whose \<open>.git\<close> directory does not exist, the handler answers the
  all-default snapshot (empty branch, no remote, three empty lists, both counts 0, not dirty)
  and no error, and it runs no command: no status, no fetch, no divergence query.
  The path is the one of a request that has the parameter, so it is not empty.
\<close>
theorem no_repository_default_snapshot:
  assumes "projectPath \<noteq> []" and "\<not> existsSync e (path_join e projectPath ''.git'')"
  shows "git_status_handler e (Some projectPath) =
           (Json \<lparr>branch = [], ahead = 0, behind = 0, modified = [], staged = [],
                  untracked = [], is_dirty = False, remote_url = None\<rparr>, [])"
  using assms by (simp add: git_status_handler_def no_repo_status_def)


text \<open>
  C10. With a request path, the answer is always a snapshot, and its branch is empty exactly
  when the \<open>.git\<close> directory does not exist: inside a repository a \<open>HEAD\<close> file that cannot
  be read, or that is empty after trimming, gives the branch \<open>main\<close>.
\<close>
theorem branch_never_empty_in_repository:
  assumes "projectPath \<noteq> []"
  shows "\<exists>s log. git_status_handler e (Some projectPath) = (Json s, log) \<and>
           (branch s = [] \<longleftrightarrow> \<not> existsSync e (path_join e projectPath ''.git'')) \<and>
           (existsSync e (path_join e projectPath ''.git'') \<and>
            (readFileSync e (path_join e (path_join e projectPath ''.git'') ''HEAD'') = None \<or>
             (\<exists>c. readFileSync e (path_join e (path_join e projectPath ''.git'') ''HEAD'') = Some c
                  \<and> js_trim c = []))
            \<longrightarrow> branch s = ''main'')"
proof (cases "existsSync e (path_join e projectPath ''.git'')")
  case False
  then show ?thesis using assms by (simp add: git_status_handler_def no_repo_status_def)
next
  case True
  let ?g = "path_join e projectPath ''.git''"
  have "branch (fst (repo_status e projectPath ?g)) \<noteq> []"
    by (simp add: repo_status_fields branch_or_main_nonempty)
  moreover have "readFileSync e (path_join e ?g ''HEAD'') = None \<Longrightarrow>
      branch (fst (repo_status e projectPath ?g)) = ''main''"
    by (simp add: repo_status_fields read_branch_def branch_or_main_def)
  moreover have "\<And>c. readFileSync e (path_join e ?g ''HEAD'') = Some c \<Longrightarrow> js_trim c = [] \<Longrightarrow>
      branch (fst (repo_status e projectPath ?g)) = ''main''"
    by (simp add: repo_status_fields read_branch_def branch_or_main_def head_branch_eq)
  ultimately show ?thesis using True assms by (auto simp: handler_repo)
qed


text \<open>
  C7, amended. Let \<open>h\<close> be the trimmed content of \<open>HEAD\<close>. If \<open>h\<close> begins with
  \<open>ref: refs/heads/\<close>, the branch of the snapshot is the rest of \<open>h\<close> after these 16
  characters, otherwise it is \<open>h\<close>; in both cases the branch is \<open>main\<close> when that result is
  empty. A content that begins with the prefix still begins with it after trimming, and
  the content \<open>ref: refs/heads/feature/x\<close> with a line feed gives \<open>feature/x\<close>.
\<close>
theorem head_branch_resolution:
  assumes "projectPath \<noteq> []" and "existsSync e (path_join e projectPath ''.git'')"
    and "readFileSync e (path_join e (path_join e projectPath ''.git'') ''HEAD'') = Some content"
  shows "\<exists>s log. git_status_handler e (Some projectPath) = (Json s, log) \<and>
           (startsWith (js_trim content) ''ref: refs/heads/'' \<longrightarrow>
              branch s = (if drop 16 (js_trim content) = [] then ''main''
                          else drop 16 (js_trim content))) \<and>
           (\<not> startsWith (js_trim content) ''ref: refs/heads/'' \<longrightarrow>
              branch s = (if js_trim content = [] then ''main'' else js_trim content)) \<and>
           (startsWith content ''ref: refs/heads/'' \<longrightarrow> startsWith (js_trim content) ''ref: refs/heads/'') \<and>
           (content = ''ref: refs/heads/feature/x'' @ [CHR 0x0A] \<longrightarrow> branch s = ''feature/x'')"
proof -
  let ?g = "path_join e projectPath ''.git''"
  have b: "branch (fst (repo_status e projectPath ?g)) =
             (if head_branch content = [] then ''main'' else head_branch content)"
    using assms(3) by (simp add: repo_status_fields read_branch_def branch_or_main_def)
  have pre: "startsWith content ''ref: refs/heads/'' \<Longrightarrow> startsWith (js_trim content) ''ref: refs/heads/''"
    by (simp add: startsWith_js_trim)
  have ex: "content = ''ref: refs/heads/feature/x'' @ [CHR 0x0A] \<Longrightarrow> head_branch content = ''feature/x''"
    by (simp add: head_branch_def js_trim_def is_space_def)
  have c1: "startsWith (js_trim content) ''ref: refs/heads/'' \<Longrightarrow>
      head_branch content = drop 16 (js_trim content)"
    by (simp only: head_branch_eq if_True)
  have c2: "\<not> startsWith (js_trim content) ''ref: refs/heads/'' \<Longrightarrow>
      head_branch content = js_trim content"
    by (simp only: head_branch_eq if_False)
  have h: "git_status_handler e (Some projectPath) =
      (Json (fst (repo_status e projectPath ?g)), snd (repo_status e projectPath ?g))"
    using assms(1,2) by (rule handler_repo)
  let ?s = "fst (repo_status e projectPath ?g)"
  have k1: "startsWith (js_trim content) ''ref: refs/heads/'' \<longrightarrow>
      branch ?s = (if drop 16 (js_trim content) = [] then ''main'' else drop 16 (js_trim content))"
    using b c1 by (simp only:) simp
  have k2: "\<not> startsWith (js_trim content) ''ref: refs/heads/'' \<longrightarrow>
      branch ?s = (if js_trim content = [] then ''main'' else js_trim content)"
    using b c2 by (simp only:) simp
  have k3: "startsWith content ''ref: refs/heads/'' \<longrightarrow> startsWith (js_trim content) ''ref: refs/heads/''"
    using pre by blast
  have k4: "content = ''ref: refs/heads/feature/x'' @ [CHR 0x0A] \<longrightarrow> branch ?s = ''feature/x''"
    using b ex by (simp only:) simp
  from h k1 k2 k3 k4 show ?thesis by blast
qed























lemma status_lists_repo:
  "modified (fst (repo_status e p g)) = fl_modified (fst (run_status e p))"
  "staged (fst (repo_status e p g)) = fl_staged (fst (run_status e p))"
  "untracked (fst (repo_status e p g)) = fl_untracked (fst (run_status e p))"
  by (simp_all add: repo_status_fields)

lemma status_lines_nonempty: "\<forall>l\<in>set (status_lines out). char_at l 0 \<noteq> None"
  by (auto simp: status_lines_def char_at_def)

lemmas status_eval = parse_status_def status_lines_def js_trim_def is_space_def status_line_def
  push_index_def push_worktree_def char_at_def no_files_def lf_def Let_def


text \<open>
  C3, amended. For the lines the status loop receives (the non-empty lines of the trimmed
  output, each with a first character), the untracked paths are those of the lines whose
  first character is \<open>?\<close> or \<open>A\<close>, and the staged paths are those of the lines whose first
  character is neither a space nor \<open>?\<close> nor \<open>A\<close>. For the output \<open>?? newfile.txt\<close>,
  \<open>newfile.txt\<close> is untracked and neither modified nor staged.
\<close>
theorem status_index_classification:
  assumes "projectPath \<noteq> []" and "existsSync e (path_join e projectPath ''.git'')"
    and "execSync e status_cmd projectPath = Some out"
  shows "\<exists>s log. git_status_handler e (Some projectPath) = (Json s, log) \<and>
     untracked s = map (\<lambda>l. js_trim (drop 3 l))
       (filter (\<lambda>l. char_at l 0 = Some CHR ''?'' \<or> char_at l 0 = Some CHR ''A'') (status_lines out)) \<and>
     staged s = map (\<lambda>l. js_trim (drop 3 l))
       (filter (\<lambda>l. char_at l 0 \<noteq> Some CHR ''?'' \<and> char_at l 0 \<noteq> Some CHR ''A'' \<and>
                    char_at l 0 \<noteq> Some CHR '' '') (status_lines out)) \<and>
     (\<forall>l\<in>set (status_lines out). char_at l 0 \<noteq> None) \<and>
     (out = ''?? newfile.txt'' @ lf \<longrightarrow>
        untracked s = [''newfile.txt''] \<and> ''newfile.txt'' \<notin> set (modified s) \<and>
        ''newfile.txt'' \<notin> set (staged s))"
proof -
  let ?g = "path_join e projectPath ''.git''"
  let ?s = "fst (repo_status e projectPath ?g)"
  have h: "git_status_handler e (Some projectPath) = (Json ?s, snd (repo_status e projectPath ?g))"
    using assms(1,2) by (rule handler_repo)
  have rs: "fst (run_status e projectPath) = parse_status out"
    using assms(3) by (simp add: run_status_def)
  have u: "untracked ?s = map (\<lambda>l. js_trim (drop 3 l))
       (filter (\<lambda>l. char_at l 0 = Some CHR ''?'' \<or> char_at l 0 = Some CHR ''A'') (status_lines out))"
    by (simp add: status_lists_repo rs parse_status_def untracked_foldl no_files_def)
  have st: "staged ?s = map (\<lambda>l. js_trim (drop 3 l))
       (filter (\<lambda>l. char_at l 0 \<noteq> Some CHR ''?'' \<and> char_at l 0 \<noteq> Some CHR ''A'' \<and>
                    char_at l 0 \<noteq> Some CHR '' '') (status_lines out))"
    by (simp add: status_lists_repo rs parse_status_def staged_foldl no_files_def)
  have ex: "out = ''?? newfile.txt'' @ lf \<longrightarrow>
        untracked ?s = [''newfile.txt''] \<and> ''newfile.txt'' \<notin> set (modified ?s) \<and>
        ''newfile.txt'' \<notin> set (staged ?s)"
    by (simp add: status_lists_repo rs) (simp add: status_eval)
  from h u st ex status_lines_nonempty[of out] show ?thesis by blast
qed


text \<open>A path added to the index (\<open>A\<close>) is listed as untracked and modified, and is not staged.\<close>
theorem added_file_counted_untracked:
  "fst (git_status_handler
          (sample_env None None (sample_git (''A  new.txt'' @ lf) None None None)) (Some ''/proj'')) =
   Json \<lparr>branch = ''main'', ahead = 0, behind = 0, modified = [''new.txt''], staged = [],
         untracked = [''new.txt''], is_dirty = True, remote_url = None\<rparr>"
  by (simp add: git_status_handler_def sample_env_def sample_git_def repo_status_def run_status_def
      read_branch_def read_remote_def divergence_def branch_or_main_def status_eval)


text \<open>
  C6. The status output is trimmed as a whole before it is split, which removes the space
  that begins a first line such as \<open> M src/a.js\<close>: the loop then reads the status \<open>M\<close> and
  a path without its first character, and lists \<open>rc/a.js\<close> as staged and as modified.
\<close>
theorem first_line_loses_leading_space:
  "fst (git_status_handler
          (sample_env None None (sample_git ('' M src/a.js'' @ lf) None None None)) (Some ''/proj'')) =
   Json \<lparr>branch = ''main'', ahead = 0, behind = 0, modified = [''rc/a.js''], staged = [''rc/a.js''],
         untracked = [], is_dirty = True, remote_url = None\<rparr>"
  by (simp add: git_status_handler_def sample_env_def sample_git_def repo_status_def run_status_def
      read_branch_def read_remote_def divergence_def branch_or_main_def status_eval)

theorem status_index_classification_witness:
  "''/proj'' \<noteq> [] \<and>
   (\<exists>s log. git_status_handler
       (sample_env None None (sample_git (''?? newfile.txt'' @ lf) None None None)) (Some ''/proj'')
         = (Json s, log) \<and>
      untracked s = [''newfile.txt''] \<and> ''newfile.txt'' \<notin> set (modified s) \<and>
      ''newfile.txt'' \<notin> set (staged s))"
proof -
  let ?e = "sample_env None None (sample_git (''?? newfile.txt'' @ lf) None None None)"
  have h1: "''/proj'' \<noteq> []" by simp
  have h2: "existsSync ?e (path_join ?e ''/proj'' ''.git'')" by (simp add: sample_env_def)
  have h3: "execSync ?e status_cmd ''/proj'' = Some (''?? newfile.txt'' @ lf)"
    by (simp add: sample_env_def sample_git_def)
  from status_index_classification[OF h1 h2 h3] h1 show ?thesis by blast
qed

theorem no_repository_default_snapshot_witness:
  "''/other'' \<noteq> [] \<and>
   \<not> existsSync (sample_env None None (\<lambda>c. None))
       (path_join (sample_env None None (\<lambda>c. None)) ''/other'' ''.git'') \<and>
   git_status_handler (sample_env None None (\<lambda>c. None)) (Some ''/other'') =
     (Json \<lparr>branch = [], ahead = 0, behind = 0, modified = [], staged = [],
            untracked = [], is_dirty = False, remote_url = None\<rparr>, [])"
proof -
  let ?e = "sample_env None None (\<lambda>c. None)"
  have h1: "''/other'' \<noteq> []" by simp
  have h2: "\<not> existsSync ?e (path_join ?e ''/other'' ''.git'')" by (simp add: sample_env_def)
  from no_repository_default_snapshot[OF h1 h2] h1 h2 show ?thesis by blast
qed

theorem branch_never_empty_in_repository_witness:
  "''/proj'' \<noteq> [] \<and>
   (\<exists>s log. git_status_handler (sample_env (Some lf) None (\<lambda>c. None)) (Some ''/proj'') = (Json s, log)
      \<and> branch s \<noteq> [] \<and> branch s = ''main'')"
proof -
  let ?e = "sample_env (Some lf) None (\<lambda>c. None)"
  have h1: "''/proj'' \<noteq> []" by simp
  have h2: "existsSync ?e (path_join ?e ''/proj'' ''.git'')" by (simp add: sample_env_def)
  have h3: "\<exists>c. readFileSync ?e (path_join ?e (path_join ?e ''/proj'' ''.git'') ''HEAD'') = Some c
      \<and> js_trim c = []"
    by (simp add: sample_env_def js_trim_def is_space_def lf_def)
  from branch_never_empty_in_repository[OF h1, of ?e] h1 h2 h3 show ?thesis by blast
qed

theorem head_branch_resolution_witness:
  "''/proj'' \<noteq> [] \<and>
   (\<exists>s log. git_status_handler
       (sample_env (Some (''ref: refs/heads/feature/x'' @ [CHR 0x0A])) None (\<lambda>c. None)) (Some ''/proj'')
         = (Json s, log) \<and> branch s = ''feature/x'')"
proof -
  let ?e = "sample_env (Some (''ref: refs/heads/feature/x'' @ [CHR 0x0A])) None (\<lambda>c. None)"
  have h1: "''/proj'' \<noteq> []" by simp
  have h2: "existsSync ?e (path_join ?e ''/proj'' ''.git'')" by (simp add: sample_env_def)
  have h3: "readFileSync ?e (path_join ?e (path_join ?e ''/proj'' ''.git'') ''HEAD'') =
      Some (''ref: refs/heads/feature/x'' @ [CHR 0x0A])"
    by (simp add: sample_env_def)
  from head_branch_resolution[OF h1 h2 h3] h1 show ?thesis by blast
qed




text \<open>A \<open>HEAD\<close> that holds the prefix and no branch name gives \<open>main\<close>, not the empty rest.\<close>
theorem head_without_branch_name:
  "fst (git_status_handler
          (sample_env (Some (''ref: refs/heads/'' @ lf)) None (\<lambda>c. None)) (Some ''/proj'')) =
   Json \<lparr>branch = ''main'', ahead = 0, behind = 0, modified = [], staged = [],
         untracked = [], is_dirty = False, remote_url = None\<rparr>"
  by (simp add: git_status_handler_def sample_env_def repo_status_def run_status_def
      read_branch_def read_remote_def divergence_def branch_or_main_def head_branch_def
      js_trim_def is_space_def no_files_def lf_def)

end
